theory Spec2Isabelle
  imports Complex_Main
begin

section \<open>Booking offers\<close>

text \<open>
  The \<^verbatim>\<open>Booking\<close> interface of \<^verbatim>\<open>BookingDetailModal.tsx\<close> (the list and slider
  components declare sub-interfaces of it). A JavaScript \<^verbatim>\<open>number\<close> that is never
  computed on here (fare, distance, rating) is a rational; an optional field is an
  \<open>option\<close>. The field \<^verbatim>\<open>id\<close> is named \<open>booking_id\<close>, since \<open>id\<close> is the
  identity function of HOL.
\<close>

record booking =
  booking_id :: string
  fare :: rat
  distance :: rat
  pickup_location :: string
  dropoff_location :: string
  passenger_name :: string
  passenger_phone :: "string option"
  passenger_rating :: "rat option"
  expires_at :: string
  created_at :: string
  estimated_duration :: "int option"

section \<open>Countdown\<close>

text \<open>
  Every component that shows a countdown carries its own copy of
  \<^verbatim>\<open>calculateTimeRemaining\<close>:
  \<^verbatim>\<open>
    const now = new Date().getTime();
    const expiresAt = new Date(booking.expires_at).getTime();
    const remaining = Math.max(0, Math.floor((expiresAt - now) / 1000));
    setTimeRemaining(remaining);
  \<close>
  The functions below return the value handed to \<^verbatim>\<open>setTimeRemaining\<close>. The clock
  reading \<open>now\<close> is an argument. \<open>getTime\<close> stands for
  \<^verbatim>\<open>new Date(s).getTime()\<close>, the epoch milliseconds of a timestamp string, which
  belongs to the JavaScript runtime and is taken as a parameter; it is an integer, so
  the embedding covers the offers whose \<^verbatim>\<open>expires_at\<close> is a timestamp (the runtime
  yields \<^verbatim>\<open>NaN\<close> for any other string). Epoch milliseconds are below \<open>2^53\<close> in
  magnitude, where the subtraction is exact in double precision and the rounding of the
  quotient by 1000 cannot reach the next integer, so the division is the exact
  rational one followed by \<open>floor\<close>.
\<close>

definition BookingListItem_calculateTimeRemaining :: "(string \<Rightarrow> int) \<Rightarrow> int \<Rightarrow> booking \<Rightarrow> int" where
  "BookingListItem_calculateTimeRemaining getTime now b =
     (let expiresAt = getTime (expires_at b);
          remaining = max 0 \<lfloor>(of_int (expiresAt - now) :: rat) / 1000\<rfloor>
      in remaining)"

definition BookingCard_calculateTimeRemaining :: "(string \<Rightarrow> int) \<Rightarrow> int \<Rightarrow> booking \<Rightarrow> int" where
  "BookingCard_calculateTimeRemaining getTime now b =
     (let expiresAt = getTime (expires_at b);
          remaining = max 0 \<lfloor>(of_int (expiresAt - now) :: rat) / 1000\<rfloor>
      in remaining)"

definition BookingDetailModal_calculateTimeRemaining :: "(string \<Rightarrow> int) \<Rightarrow> int \<Rightarrow> booking \<Rightarrow> int" where
  "BookingDetailModal_calculateTimeRemaining getTime now b =
     (let expiresAt = getTime (expires_at b);
          remaining = max 0 \<lfloor>(of_int (expiresAt - now) :: rat) / 1000\<rfloor>
      in remaining)"

text \<open>
  The progress bar of each countdown: \<^verbatim>\<open>const totalTime = 30\<close> and
  \<^verbatim>\<open>(timeRemaining / totalTime) * 100\<close> in the list item, in the detail modal and in
  one variant of the swipe card; the other variant of the swipe card writes
  \<^verbatim>\<open>(timeRemaining / 30) * 100\<close> in place. The result is the percentage given to the
  \<^verbatim>\<open>width\<close> style.
\<close>

definition BookingListItem_progressPercentage :: "int \<Rightarrow> rat" where
  "BookingListItem_progressPercentage timeRemaining =
     (let totalTime = 30 in (of_int timeRemaining / totalTime) * 100)"

definition BookingDetailModal_progressPercentage :: "int \<Rightarrow> rat" where
  "BookingDetailModal_progressPercentage timeRemaining =
     (let totalTime = 30 in (of_int timeRemaining / totalTime) * 100)"

definition BookingCard_progressPercentage :: "int \<Rightarrow> rat" where
  "BookingCard_progressPercentage timeRemaining =
     (let totalTime = 30 in (of_int timeRemaining / totalTime) * 100)"

definition BookingCard_progressWidth :: "int \<Rightarrow> rat" where
  "BookingCard_progressWidth timeRemaining = (of_int timeRemaining / 30) * 100"

section \<open>Backend client\<close>

text \<open>
  The outcome of one axios request, as the \<^verbatim>\<open>catch\<close> block of every function of the
  API client distinguishes it: a 2xx response with its payload; an axios error that
  carries a response, with the fields \<^verbatim>\<open>data.detail\<close> and \<^verbatim>\<open>data.message\<close> of its
  body; an axios error with a request and no response (server unreachable, timeout);
  anything else that is thrown.
\<close>

datatype 'a outcome =
    Response 'a
  | ErrorResponse "string option" "string option"
  | NoResponse
  | Unexpected

text \<open>\<^verbatim>\<open>a || d\<close> on an optional string: an absent or empty string is falsy.\<close>

fun js_or :: "string option \<Rightarrow> string \<Rightarrow> string" where
  "js_or None d = d"
| "js_or (Some a) d = (if a = [] then d else a)"

datatype body = EmptyObject | IsOnline bool

datatype request = GET string | POST string body

definition updateOnlineStatus_request :: "bool \<Rightarrow> request" where
  "updateOnlineStatus_request isOnline' =
     POST ''/api/v1/dashboard/online-status'' (IsOnline isOnline')"

definition updateOnlineStatus :: "'a outcome \<Rightarrow> string + 'a" where
  "updateOnlineStatus r =
     (case r of
        Response data \<Rightarrow> Inr data
      | ErrorResponse detail message \<Rightarrow>
          Inl (js_or detail (js_or message ''Failed to update status''))
      | NoResponse \<Rightarrow>
          Inl ''Unable to reach server. Please check your internet connection.''
      | Unexpected \<Rightarrow> Inl ''An unexpected error occurred. Please try again.'')"

definition getBookingRequests_request :: request where
  "getBookingRequests_request = GET ''/api/v1/dashboard/booking-requests''"

text \<open>
  The payload is \<^verbatim>\<open>response.data.bookings\<close>, \<open>None\<close> when the field is missing
  or null: \<^verbatim>\<open>return response.data.bookings || []\<close>.
\<close>

definition getBookingRequests :: "booking list option outcome \<Rightarrow> string + booking list" where
  "getBookingRequests r =
     (case r of
        Response bookings \<Rightarrow> Inr (case bookings of Some bs \<Rightarrow> bs | None \<Rightarrow> [])
      | ErrorResponse detail message \<Rightarrow>
          Inl (js_or detail (js_or message ''Failed to load bookings''))
      | NoResponse \<Rightarrow>
          Inl ''Unable to reach server. Please check your internet connection.''
      | Unexpected \<Rightarrow> Inl ''An unexpected error occurred. Please try again.'')"

definition acceptBooking_request :: "string \<Rightarrow> request" where
  "acceptBooking_request bookingId =
     POST (''/api/v1/dashboard/bookings/'' @ bookingId @ ''/accept'') EmptyObject"

definition acceptBooking :: "'a outcome \<Rightarrow> string + 'a" where
  "acceptBooking r =
     (case r of
        Response data \<Rightarrow> Inr data
      | ErrorResponse detail message \<Rightarrow>
          Inl (js_or detail (js_or message ''Failed to accept booking''))
      | NoResponse \<Rightarrow>
          Inl ''Unable to reach server. Please check your internet connection.''
      | Unexpected \<Rightarrow> Inl ''An unexpected error occurred. Please try again.'')"

section \<open>Dashboard screen\<close>

text \<open>
  The state cells of \<^verbatim>\<open>DashboardScreen\<close> that the booking requests touch
  (\<^verbatim>\<open>dashboardData\<close> and \<^verbatim>\<open>isLoading\<close> belong to the statistics), together with
  the cells of its children and the effects of the handlers, written out:
  \<^item> \<open>currentIndex\<close> is the \<^verbatim>\<open>useState(0)\<close> of \<^verbatim>\<open>BookingSliderView\<close>;
  \<^item> \<open>timeRemaining\<close> holds the \<^verbatim>\<open>useState(0)\<close> of the countdown components, one
    cell for each booking identifier, which is the React key of a list item and of a card;
  \<^item> \<open>interval\<close> is the period in milliseconds of the \<^verbatim>\<open>setInterval\<close> of the polling
    effect, \<open>None\<close> when no interval is set (never set, or cleared);
  \<^item> \<open>calls\<close> lists the requests that the handlers have made through the API client;
  \<^item> \<open>toasts\<close> lists the \<^verbatim>\<open>Toast.show\<close> calls, \<open>console\<close> the
    \<^verbatim>\<open>console.error\<close> calls, \<open>navigations\<close> the calls of the router.
\<close>

datatype view_mode = list_mode | slider_mode

datatype toast = Toast string string string

record dashboard =
  isOnline :: bool
  viewMode :: view_mode
  bookingRequests :: "booking list"
  selectedBooking :: "booking option"
  isModalVisible :: bool
  currentIndex :: nat
  timeRemaining :: "string \<Rightarrow> int"
  interval :: "nat option"
  calls :: "request list"
  toasts :: "toast list"
  console :: "string list"
  navigations :: "string list"

definition DashboardScreen_initial :: dashboard where
  "DashboardScreen_initial =
     \<lparr>isOnline = False, viewMode = list_mode, bookingRequests = [],
      selectedBooking = None, isModalVisible = False, currentIndex = 0,
      timeRemaining = (\<lambda>_. 0), interval = None, calls = [], toasts = [],
      console = [], navigations = []\<rparr>"

text \<open>
  \<^verbatim>\<open>
  const fetchBookingRequests = async () => {
    try {
      const requests = await getBookingRequests();
      setBookingRequests(requests || []);
    } catch (error) {
      console.error('Error fetching bookings:', error);
    }
  };
  \<close>
  The argument \<open>r\<close> is what the backend answers to the request. The value of
  \<^verbatim>\<open>getBookingRequests\<close> is an array, which is truthy, so \<^verbatim>\<open>requests || []\<close> is
  \<^verbatim>\<open>requests\<close>.
\<close>

definition fetchBookingRequests :: "booking list option outcome \<Rightarrow> dashboard \<Rightarrow> dashboard" where
  "fetchBookingRequests r s =
     (let s1 = s\<lparr>calls := calls s @ [getBookingRequests_request]\<rparr> in
      case getBookingRequests r of
        Inr requests \<Rightarrow> s1\<lparr>bookingRequests := requests\<rparr>
      | Inl error \<Rightarrow> s1\<lparr>console := console s1 @ [''Error fetching bookings: '' @ error]\<rparr>)"

text \<open>
  The polling effect, with the dependency \<^verbatim>\<open>[isOnline]\<close>: React runs the cleanup
  \<^verbatim>\<open>clearInterval(interval)\<close> of the previous run and then the body,
  \<^verbatim>\<open>if (isOnline) { const interval = setInterval(() => { fetchBookingRequests(); }, 5000); ... }\<close>.
  \<open>intervalFires\<close> is the callback of that interval.
\<close>

definition pollingEffect :: "dashboard \<Rightarrow> dashboard" where
  "pollingEffect s = s\<lparr>interval := (if isOnline s then Some 5000 else None)\<rparr>"

definition intervalFires :: "booking list option outcome \<Rightarrow> dashboard \<Rightarrow> dashboard" where
  "intervalFires r s =
     (case interval s of Some period \<Rightarrow> fetchBookingRequests r s | None \<Rightarrow> s)"

text \<open>
  \<^verbatim>\<open>handleToggleOnline\<close>: \<open>r1\<close> is the answer to the status update, \<open>r2\<close> the answer
  to the fetch that follows when the driver goes online. \<open>toggleOnline\<close> is the handler
  followed by the polling effect, which React runs again when \<^verbatim>\<open>isOnline\<close> has changed.
\<close>

definition handleToggleOnline :: "'a outcome \<Rightarrow> booking list option outcome \<Rightarrow> dashboard \<Rightarrow> dashboard" where
  "handleToggleOnline r1 r2 s =
     (let newStatus = \<not> isOnline s;
          s1 = s\<lparr>calls := calls s @ [updateOnlineStatus_request newStatus]\<rparr>
      in case updateOnlineStatus r1 of
        Inr data \<Rightarrow>
          (let s2 = s1\<lparr>isOnline := newStatus\<rparr>;
               s3 = s2\<lparr>toasts := toasts s2 @
                      [Toast ''success''
                         (if newStatus then ''You are now Online'' else ''You are now Offline'')
                         (if newStatus then ''You can receive booking requests''
                          else ''You will not receive new bookings'')]\<rparr>
           in if newStatus then fetchBookingRequests r2 s3
              else s3\<lparr>bookingRequests := []\<rparr>)
      | Inl error \<Rightarrow>
          s1\<lparr>toasts := toasts s1 @
                [Toast ''error'' ''Error'' ''Failed to update online status'']\<rparr>)"

definition toggleOnline :: "'a outcome \<Rightarrow> booking list option outcome \<Rightarrow> dashboard \<Rightarrow> dashboard" where
  "toggleOnline r1 r2 s =
     (let s' = handleToggleOnline r1 r2 s in
      if isOnline s' = isOnline s then s' else pollingEffect s')"

definition handleBookingPress :: "booking \<Rightarrow> dashboard \<Rightarrow> dashboard" where
  "handleBookingPress b s = s\<lparr>selectedBooking := Some b, isModalVisible := True\<rparr>"

definition handleCloseModal :: "dashboard \<Rightarrow> dashboard" where
  "handleCloseModal s = s\<lparr>isModalVisible := False, selectedBooking := None\<rparr>"

text \<open>
  The two buttons of the view mode toggle call \<^verbatim>\<open>setViewMode\<close>. The dashboard
  renders \<^verbatim>\<open>BookingSliderView\<close> when the driver is online, there are booking requests
  and the view mode is not the list; \<open>currentIndex\<close> is a cell of that component, so it
  lives as long as the component stays mounted and starts at 0 again with every mount.
  Where the swipe view is not mounted before or after the switch, the cell is 0.
\<close>

definition BookingSliderView_mounted :: "dashboard \<Rightarrow> bool" where
  "BookingSliderView_mounted s \<longleftrightarrow>
     isOnline s \<and> length (bookingRequests s) \<noteq> 0 \<and> viewMode s = slider_mode"

definition setViewMode :: "view_mode \<Rightarrow> dashboard \<Rightarrow> dashboard" where
  "setViewMode m s =
     (let s' = s\<lparr>viewMode := m\<rparr> in
      if BookingSliderView_mounted s \<and> BookingSliderView_mounted s' then s'
      else s'\<lparr>currentIndex := 0\<rparr>)"

text \<open>
  \<^verbatim>\<open>
  const handleAcceptBooking = async (bookingId: string) => {
    // Will be implemented with accept booking logic
    setIsModalVisible(false);
    setSelectedBooking(null);
  };
  \<close>
  The dashboard with the map in the background has the same handler, followed by
  \<^verbatim>\<open>await fetchBookingRequests()\<close> (\<open>handleAcceptBooking_refresh\<close>).
\<close>

definition handleAcceptBooking :: "string \<Rightarrow> dashboard \<Rightarrow> dashboard" where
  "handleAcceptBooking bookingId s = s\<lparr>isModalVisible := False, selectedBooking := None\<rparr>"

definition handleAcceptBooking_refresh :: "booking list option outcome \<Rightarrow> string \<Rightarrow> dashboard \<Rightarrow> dashboard" where
  "handleAcceptBooking_refresh r bookingId s =
     fetchBookingRequests r (s\<lparr>isModalVisible := False, selectedBooking := None\<rparr>)"

text \<open>
  \<^verbatim>\<open>handleAccept\<close> of the detail modal: \<^verbatim>\<open>if (booking) { onAccept(booking.id); }\<close>,
  where \<^verbatim>\<open>booking\<close> is the selected booking.
\<close>

definition BookingDetailModal_handleAccept :: "(string \<Rightarrow> dashboard \<Rightarrow> dashboard) \<Rightarrow> dashboard \<Rightarrow> dashboard" where
  "BookingDetailModal_handleAccept onAccept s =
     (case selectedBooking s of Some b \<Rightarrow> onAccept (booking_id b) s | None \<Rightarrow> s)"

section \<open>Swipe view: the handlers\<close>

text \<open>
  \<^verbatim>\<open>
  const handleSwipeLeft = () => {
    // Ignore booking - just move to next
    setCurrentIndex((prev) => prev + 1);
  };
  const handleSwipeRight = () => {
    // Accept booking
    if (bookings[currentIndex]) {
      onAccept(bookings[currentIndex].id);
      setCurrentIndex((prev) => prev + 1);
    }
  };
  \<close>
  Both are closures of one render of the slider view. \<^verbatim>\<open>handleSwipeRight\<close> reads the
  values that \<^verbatim>\<open>bookings\<close> (the property that the dashboard passes, its
  \<^verbatim>\<open>bookingRequests\<close>) and \<^verbatim>\<open>currentIndex\<close> had in that render, here the arguments
  \<open>bookings\<close> and \<open>index\<close>; an index out of range reads \<^verbatim>\<open>undefined\<close>, which is
  falsy. The update of the cursor is a function of the cell's value at the time of the
  update, so it acts on the state \<open>s\<close> in which the handler runs. For the handler of
  the latest render, \<open>bookings\<close> and \<open>index\<close> are \<open>bookingRequests s\<close> and
  \<open>currentIndex s\<close>; a handler that a card has kept from an earlier render carries the
  values of that render.
\<close>

definition handleSwipeLeft :: "dashboard \<Rightarrow> dashboard" where
  "handleSwipeLeft s = s\<lparr>currentIndex := currentIndex s + 1\<rparr>"

definition handleSwipeRight :: "(string \<Rightarrow> dashboard \<Rightarrow> dashboard) \<Rightarrow> booking list \<Rightarrow> nat \<Rightarrow> dashboard \<Rightarrow> dashboard" where
  "handleSwipeRight onAccept bookings index s =
     (if index < length bookings
      then (let s1 = onAccept (booking_id (bookings ! index)) s
            in s1\<lparr>currentIndex := currentIndex s1 + 1\<rparr>)
      else s)"

section \<open>Double-precision arithmetic\<close>

text \<open>
  The numbers of the gesture code are IEEE 754 double-precision values, here the
  rationals that they denote. A product or a sum is the exact result rounded to the
  nearest double, ties to the even significand, and a decimal literal denotes the double
  nearest to it. \<open>binade x\<close> is the exponent \<open>e\<close> with \<open>2^e \<le> \<bar>x\<bar> < 2^(e+1)\<close>;
  a double has 53 significant bits, so the doubles around \<open>x\<close> are the multiples of
  \<open>2^(e - 52)\<close>, and of \<open>2^(-1074)\<close> below the smallest normal number
  \<open>2^(-1022)\<close>. Results beyond the largest double do not arise from the widths of
  screens and are not modelled.
\<close>

fun bit_length :: "nat \<Rightarrow> nat" where
  "bit_length n = (if n = 0 then 0 else Suc (bit_length (n div 2)))"

declare bit_length.simps [simp del]

definition binade :: "rat \<Rightarrow> int" where
  "binade x =
     (if 1 \<le> \<bar>x\<bar> then int (bit_length (nat \<lfloor>\<bar>x\<bar>\<rfloor>)) - 1
      else - int (bit_length (nat (\<lceil>1 / \<bar>x\<bar>\<rceil> - 1))))"

definition round_half_even :: "rat \<Rightarrow> int" where
  "round_half_even y =
     (let f = \<lfloor>y\<rfloor>; d = y - of_int f
      in if d < 1 / 2 then f else if 1 / 2 < d then f + 1
         else if even f then f else f + 1)"

definition round_double :: "rat \<Rightarrow> rat" where
  "round_double x =
     (if x = 0 then 0
      else (let quantum = 2 powi (max (binade x) (- 1022) - 52)
            in of_int (round_half_even (x / quantum)) * quantum))"

section \<open>Swipe gestures\<close>

text \<open>
  The pan responder of a card. \<^verbatim>\<open>SCREEN_WIDTH\<close> is the width of the window, read from
  the device, and \<^verbatim>\<open>const SWIPE_THRESHOLD = SCREEN_WIDTH * 0.35\<close>, a product of doubles.
  A gesture carries the accumulated displacement \<^verbatim>\<open>dx\<close>, \<^verbatim>\<open>dy\<close>. The release
  compares \<^verbatim>\<open>gesture.dx\<close> with the threshold (a comparison of doubles is exact) and
  starts a spring animation towards \<open>toValue\<close>; \<open>start_callback\<close> is the property of
  the card that the animation calls when it ends, \<open>None\<close> when \<^verbatim>\<open>start()\<close> has no
  callback.
\<close>

record gesture =
  dx :: rat
  dy :: rat

datatype swipe_callback = OnSwipeRight | OnSwipeLeft

record release =
  toValue :: "rat \<times> rat"
  start_callback :: "swipe_callback option"

definition SWIPE_THRESHOLD :: "rat \<Rightarrow> rat" where
  "SWIPE_THRESHOLD SCREEN_WIDTH = round_double (SCREEN_WIDTH * round_double (35 / 100))"

definition onPanResponderMove :: "gesture \<Rightarrow> rat \<times> rat \<Rightarrow> rat \<times> rat" where
  "onPanResponderMove g position = (dx g, dy g)"

definition onPanResponderRelease :: "rat \<Rightarrow> gesture \<Rightarrow> release" where
  "onPanResponderRelease SCREEN_WIDTH g =
     (if dx g > SWIPE_THRESHOLD SCREEN_WIDTH
      then \<lparr>toValue = (round_double (SCREEN_WIDTH + 100), dy g),
            start_callback = Some OnSwipeRight\<rparr>
      else if dx g < - SWIPE_THRESHOLD SCREEN_WIDTH
      then \<lparr>toValue = (round_double (- SCREEN_WIDTH - 100), dy g),
            start_callback = Some OnSwipeLeft\<rparr>
      else \<lparr>toValue = (0, 0), start_callback = None\<rparr>)"

text \<open>
  A whole gesture on a card: the moves, each setting the position of the card, and the
  release. The result is the position that the moves leave and what the release starts.
\<close>

definition panResponder_gesture :: "rat \<Rightarrow> gesture list \<Rightarrow> gesture \<Rightarrow> rat \<times> rat \<Rightarrow> (rat \<times> rat) \<times> release" where
  "panResponder_gesture SCREEN_WIDTH moves g position =
     (foldl (\<lambda>p m. onPanResponderMove m p) position moves,
      onPanResponderRelease SCREEN_WIDTH g)"

text \<open>
  The release of a gesture that a card has taken, up to the end of the animation: the
  slider view passes \<^verbatim>\<open>handleSwipeLeft\<close> and \<^verbatim>\<open>handleSwipeRight\<close> as
  \<^verbatim>\<open>onSwipeLeft\<close> and \<^verbatim>\<open>onSwipeRight\<close>. The card builds its pan responder once,
  \<^verbatim>\<open>useRef(PanResponder.create({...})).current\<close>, so the responder keeps the
  properties of the first render of the card: \<open>bookings\<close> and \<open>index\<close> are the
  values in the \<^verbatim>\<open>handleSwipeRight\<close> of that render.
\<close>

definition BookingCard_release :: "(string \<Rightarrow> dashboard \<Rightarrow> dashboard) \<Rightarrow> booking list \<Rightarrow> nat \<Rightarrow> rat \<Rightarrow> gesture \<Rightarrow> dashboard \<Rightarrow> dashboard" where
  "BookingCard_release onAccept bookings index SCREEN_WIDTH g s =
     (case start_callback (onPanResponderRelease SCREEN_WIDTH g) of
        Some OnSwipeRight \<Rightarrow> handleSwipeRight onAccept bookings index s
      | Some OnSwipeLeft \<Rightarrow> handleSwipeLeft s
      | None \<Rightarrow> s)"

text \<open>
  Whether a card takes a gesture: the handlers of the responder are attached only while
  the card is the top card, \<^verbatim>\<open>{...(isTopCard ? panResponder.panHandlers : {})}\<close>, and
  the responder asks for the gesture with
  \<^verbatim>\<open>onStartShouldSetPanResponder: () => isTopCard\<close>, which reads the \<^verbatim>\<open>isTopCard\<close>
  of the first render of the card (\<open>firstTop\<close>).
\<close>

definition BookingCard_gesture :: "(string \<Rightarrow> dashboard \<Rightarrow> dashboard) \<Rightarrow> booking list \<Rightarrow> nat \<Rightarrow> bool \<Rightarrow> bool \<Rightarrow> rat \<Rightarrow> gesture \<Rightarrow> dashboard \<Rightarrow> dashboard" where
  "BookingCard_gesture onAccept bookings index firstTop isTop SCREEN_WIDTH g s =
     (if isTop \<and> firstTop then BookingCard_release onAccept bookings index SCREEN_WIDTH g s
      else s)"

section \<open>Countdown ticks\<close>

text \<open>
  The callback of the one-second interval of a countdown component showing the booking
  \<open>b\<close>, firing when the clock reads \<open>now\<close>: \<^verbatim>\<open>calculateTimeRemaining()\<close>, which
  ends in \<^verbatim>\<open>setTimeRemaining(remaining)\<close>. The effect of the modal starts with
  \<^verbatim>\<open>if (!booking) return;\<close>.
\<close>

definition BookingListItem_tick :: "(string \<Rightarrow> int) \<Rightarrow> int \<Rightarrow> booking \<Rightarrow> dashboard \<Rightarrow> dashboard" where
  "BookingListItem_tick getTime now b s =
     s\<lparr>timeRemaining := (timeRemaining s)
          (booking_id b := BookingListItem_calculateTimeRemaining getTime now b)\<rparr>"

definition BookingCard_tick :: "(string \<Rightarrow> int) \<Rightarrow> int \<Rightarrow> booking \<Rightarrow> dashboard \<Rightarrow> dashboard" where
  "BookingCard_tick getTime now b s =
     s\<lparr>timeRemaining := (timeRemaining s)
          (booking_id b := BookingCard_calculateTimeRemaining getTime now b)\<rparr>"

definition BookingDetailModal_tick :: "(string \<Rightarrow> int) \<Rightarrow> int \<Rightarrow> dashboard \<Rightarrow> dashboard" where
  "BookingDetailModal_tick getTime now s =
     (case selectedBooking s of
        None \<Rightarrow> s
      | Some b \<Rightarrow>
          s\<lparr>timeRemaining := (timeRemaining s)
               (booking_id b := BookingDetailModal_calculateTimeRemaining getTime now b)\<rparr>)"

section \<open>Projections\<close>

text \<open>
  What the dashboard renders of the booking requests. \<^verbatim>\<open>BookingListView\<close> is a
  \<^verbatim>\<open>FlatList\<close> with \<^verbatim>\<open>data={bookings}\<close>, one \<^verbatim>\<open>BookingListItem\<close> for each.
  \<^verbatim>\<open>BookingSliderView\<close> returns \<^verbatim>\<open>null\<close> when \<^verbatim>\<open>bookings.length === 0\<close> and
  otherwise maps
  \<^verbatim>\<open>bookings.slice(currentIndex, currentIndex + 2).reverse()\<close> to cards, with
  \<^verbatim>\<open>isTopCard={index === 1}\<close>.
\<close>

record list_row =
  row_booking :: booking
  row_timeRemaining :: int
  row_progressPercentage :: rat

record card =
  card_booking :: booking
  card_timeRemaining :: int
  card_progressPercentage :: rat
  isTopCard :: bool

definition BookingListItem :: "dashboard \<Rightarrow> booking \<Rightarrow> list_row" where
  "BookingListItem s b =
     \<lparr>row_booking = b, row_timeRemaining = timeRemaining s (booking_id b),
      row_progressPercentage =
        BookingListItem_progressPercentage (timeRemaining s (booking_id b))\<rparr>"

definition BookingListView :: "dashboard \<Rightarrow> list_row list" where
  "BookingListView s = map (BookingListItem s) (bookingRequests s)"

definition BookingCard :: "dashboard \<Rightarrow> booking \<Rightarrow> bool \<Rightarrow> card" where
  "BookingCard s b isTop =
     \<lparr>card_booking = b, card_timeRemaining = timeRemaining s (booking_id b),
      card_progressPercentage =
        BookingCard_progressPercentage (timeRemaining s (booking_id b)),
      isTopCard = isTop\<rparr>"

definition BookingSliderView :: "dashboard \<Rightarrow> card list" where
  "BookingSliderView s =
     (if length (bookingRequests s) = 0 then []
      else map (\<lambda>(index, b). BookingCard s b (index = 1))
             (enumerate 0 (rev (take 2 (drop (currentIndex s) (bookingRequests s))))))"

datatype screen =
    OfflineMessage
  | NoBookingsMessage
  | ListView "list_row list"
  | SliderView "card list"

definition DashboardScreen_bookings :: "dashboard \<Rightarrow> screen" where
  "DashboardScreen_bookings s =
     (if \<not> isOnline s then OfflineMessage
      else if length (bookingRequests s) = 0 then NoBookingsMessage
      else if viewMode s = list_mode then ListView (BookingListView s)
      else SliderView (BookingSliderView s))"

section \<open>Sample offers\<close>

text \<open>
  Two offers as the backend lists them, expiring 30 and 60 seconds after the epoch, a
  reading of the timestamps that covers them, and a dashboard that is online and holds
  both, in the swipe view, with the first one open in the detail modal. The dashboard
  is the one reached from the initial state by going online, with both offers in the
  answer to the fetch, switching to the swipe view and pressing the first offer.
\<close>

definition offer1 :: booking where
  "offer1 =
     \<lparr>booking_id = ''O1'', fare = 17 / 2, distance = 16 / 5,
      pickup_location = ''123 Main St, Downtown'',
      dropoff_location = ''456 Park Ave, Uptown'',
      passenger_name = ''Jane Smith'', passenger_phone = Some ''+1234567890'',
      passenger_rating = Some (24 / 5),
      expires_at = ''1970-01-01T00:00:30Z'', created_at = ''1970-01-01T00:00:00Z'',
      estimated_duration = Some 15\<rparr>"

definition offer2 :: booking where
  "offer2 =
     \<lparr>booking_id = ''O2'', fare = 12, distance = 5,
      pickup_location = ''9 Elm Rd'',
      dropoff_location = ''Central Station'',
      passenger_name = ''Sam Lee'', passenger_phone = None,
      passenger_rating = None,
      expires_at = ''1970-01-01T00:01:00Z'', created_at = ''1970-01-01T00:00:00Z'',
      estimated_duration = None\<rparr>"

definition epoch_ms :: "string \<Rightarrow> int" where
  "epoch_ms t =
     (if t = ''1970-01-01T00:00:30Z'' then 30000
      else if t = ''1970-01-01T00:01:00Z'' then 60000
      else 0)"

definition online_two :: dashboard where
  "online_two =
     \<lparr>isOnline = True, viewMode = slider_mode, bookingRequests = [offer1, offer2],
      selectedBooking = Some offer1, isModalVisible = True, currentIndex = 0,
      timeRemaining = (\<lambda>_. 0), interval = Some 5000,
      calls = [updateOnlineStatus_request True, getBookingRequests_request],
      toasts = [Toast ''success'' ''You are now Online'' ''You can receive booking requests''],
      console = [], navigations = []\<rparr>"

section \<open>Countdown: the remaining seconds and the progress bar\<close>

lemma floor_div_1000: "\<lfloor>(of_int k :: rat) / 1000\<rfloor> = k div 1000"
proof -
  have "\<lfloor>(of_int k :: rat) / of_int 1000\<rfloor> = k div 1000"
    by (rule floor_divide_of_int_eq)
  then show ?thesis by simp
qed

lemma BookingListItem_calculateTimeRemaining_int:
  "BookingListItem_calculateTimeRemaining getTime now b =
     max 0 ((getTime (expires_at b) - now) div 1000)"
  unfolding BookingListItem_calculateTimeRemaining_def Let_def floor_div_1000 ..

lemma BookingCard_calculateTimeRemaining_int:
  "BookingCard_calculateTimeRemaining getTime now b =
     max 0 ((getTime (expires_at b) - now) div 1000)"
  unfolding BookingCard_calculateTimeRemaining_def Let_def floor_div_1000 ..

lemma BookingDetailModal_calculateTimeRemaining_int:
  "BookingDetailModal_calculateTimeRemaining getTime now b =
     max 0 ((getTime (expires_at b) - now) div 1000)"
  unfolding BookingDetailModal_calculateTimeRemaining_def Let_def floor_div_1000 ..

lemmas calculateTimeRemaining_int =
  BookingListItem_calculateTimeRemaining_int
  BookingCard_calculateTimeRemaining_int
  BookingDetailModal_calculateTimeRemaining_int

lemmas sample_defs = offer1_def offer2_def epoch_ms_def online_two_def

lemma online_two_reachable:
  "online_two =
     handleBookingPress offer1
       (setViewMode slider_mode
         (toggleOnline (Response ()) (Response (Some [offer1, offer2]))
           DashboardScreen_initial))"
  by (simp add: online_two_def DashboardScreen_initial_def handleBookingPress_def
      setViewMode_def BookingSliderView_mounted_def toggleOnline_def
      handleToggleOnline_def updateOnlineStatus_def
      fetchBookingRequests_def getBookingRequests_def pollingEffect_def Let_def)

lemma remaining_expired:
  fixes e now :: int
  assumes "e \<le> now"
  shows "max 0 ((e - now) div 1000) = 0"
proof -
  have "(e - now) div 1000 \<le> 0 div 1000"
    using assms by (intro zdiv_mono1) simp_all
  then show ?thesis by simp
qed

text \<open>
  Claim C4. The remaining seconds of an offer are
  \<open>max 0 (floor ((expires_at - now) / 1000))\<close>, which in integers is
  \<open>max 0 ((expires_at - now) div 1000)\<close>: the list item, the swipe card and the detail
  modal compute the same value for the same offer and clock reading; the value is never
  negative; it does not grow as the clock advances; and it is 0 from the expiry on.
\<close>

theorem C4_remainingSeconds:
  assumes "now \<le> now'"
  shows "BookingListItem_calculateTimeRemaining getTime now b =
           max 0 ((getTime (expires_at b) - now) div 1000)
       \<and> BookingCard_calculateTimeRemaining getTime now b =
           BookingListItem_calculateTimeRemaining getTime now b
       \<and> BookingDetailModal_calculateTimeRemaining getTime now b =
           BookingListItem_calculateTimeRemaining getTime now b
       \<and> 0 \<le> BookingListItem_calculateTimeRemaining getTime now b
       \<and> BookingListItem_calculateTimeRemaining getTime now' b
           \<le> BookingListItem_calculateTimeRemaining getTime now b
       \<and> (getTime (expires_at b) \<le> now \<longrightarrow>
            BookingListItem_calculateTimeRemaining getTime now' b = 0)"
proof -
  let ?e = "getTime (expires_at b)"
  have later: "(?e - now') div 1000 \<le> (?e - now) div 1000"
    using assms by (intro zdiv_mono1) simp_all
  have expired: "max 0 ((?e - now') div 1000) = 0" if "?e \<le> now"
    using that assms by (intro remaining_expired) simp
  show ?thesis
    using later expired by (simp add: calculateTimeRemaining_int)
qed

theorem C4_remainingSeconds_witness:
  "(29001::int) \<le> 30001
   \<and> BookingListItem_calculateTimeRemaining epoch_ms 29001 offer2 = 30
   \<and> BookingCard_calculateTimeRemaining epoch_ms 29001 offer2 = 30
   \<and> BookingDetailModal_calculateTimeRemaining epoch_ms 29001 offer2 = 30
   \<and> BookingListItem_calculateTimeRemaining epoch_ms 30001 offer2 = 29
   \<and> epoch_ms (expires_at offer1) \<le> 30001
   \<and> BookingListItem_calculateTimeRemaining epoch_ms 30001 offer1 = 0"
  using C4_remainingSeconds [of 29001 30001 epoch_ms offer2]
    C4_remainingSeconds [of 30001 30001 epoch_ms offer1]
  by (simp add: calculateTimeRemaining_int sample_defs)

lemma progressPercentage_eq:
  "BookingListItem_progressPercentage t = of_int t / 30 * 100"
  "BookingDetailModal_progressPercentage t = of_int t / 30 * 100"
  "BookingCard_progressPercentage t = of_int t / 30 * 100"
  "BookingCard_progressWidth t = of_int t / 30 * 100"
  by (simp_all add: BookingListItem_progressPercentage_def
      BookingDetailModal_progressPercentage_def BookingCard_progressPercentage_def
      BookingCard_progressWidth_def)

text \<open>
  Claim C10. Every progress bar computes \<open>(timeRemaining / 30) * 100\<close> against the
  fixed total of 30 seconds and does not clamp the result: when more than 30 seconds
  remain, the percentage is above 100. Nothing ties the expiry of an offer to 30 seconds
  after the clock reading; the second sample offer, 60 seconds from its expiry, gets 200.
\<close>

theorem C10_progress_unclamped:
  assumes "30 < t"
  shows "BookingListItem_progressPercentage t = of_int t / 30 * 100
       \<and> BookingDetailModal_progressPercentage t = of_int t / 30 * 100
       \<and> BookingCard_progressPercentage t = of_int t / 30 * 100
       \<and> BookingCard_progressWidth t = of_int t / 30 * 100
       \<and> 100 < BookingListItem_progressPercentage t
       \<and> 100 < BookingDetailModal_progressPercentage t
       \<and> 100 < BookingCard_progressPercentage t
       \<and> 100 < BookingCard_progressWidth t"
proof -
  have "(30::rat) < of_int t"
    using assms by (metis of_int_less_iff of_int_numeral)
  then have "(100::rat) < of_int t / 30 * 100"
    by simp
  then show ?thesis
    by (simp add: progressPercentage_eq)
qed

theorem C10_progress_unclamped_witness:
  "30 < BookingListItem_calculateTimeRemaining epoch_ms 0 offer2
   \<and> BookingListItem_progressPercentage
        (BookingListItem_calculateTimeRemaining epoch_ms 0 offer2) = 200
   \<and> BookingDetailModal_progressPercentage
        (BookingListItem_calculateTimeRemaining epoch_ms 0 offer2) = 200
   \<and> BookingCard_progressPercentage
        (BookingListItem_calculateTimeRemaining epoch_ms 0 offer2) = 200
   \<and> BookingCard_progressWidth
        (BookingListItem_calculateTimeRemaining epoch_ms 0 offer2) = 200"
  using C10_progress_unclamped [of "BookingListItem_calculateTimeRemaining epoch_ms 0 offer2"]
  by (simp add: calculateTimeRemaining_int sample_defs progressPercentage_eq)

section \<open>Fetching the offers\<close>

lemma getBookingRequests_Response:
  "getBookingRequests (Response bookings) =
     Inr (case bookings of Some bs \<Rightarrow> bs | None \<Rightarrow> [])"
  by (simp add: getBookingRequests_def)

lemma getBookingRequests_NoResponse:
  "getBookingRequests NoResponse =
     Inl ''Unable to reach server. Please check your internet connection.''"
  by (simp add: getBookingRequests_def)

lemma getBookingRequests_failure:
  "getBookingRequests (ErrorResponse detail message) =
     Inl (js_or detail (js_or message ''Failed to load bookings''))"
  "getBookingRequests Unexpected = Inl ''An unexpected error occurred. Please try again.''"
  by (simp_all add: getBookingRequests_def)

lemma updateOnlineStatus_Response: "updateOnlineStatus (Response u) = Inr u"
  by (simp add: updateOnlineStatus_def)

lemma updateOnlineStatus_NoResponse:
  "updateOnlineStatus NoResponse =
     Inl ''Unable to reach server. Please check your internet connection.''"
  by (simp add: updateOnlineStatus_def)

lemma fetchBookingRequests_frame:
  "isOnline (fetchBookingRequests r s) = isOnline s"
  "viewMode (fetchBookingRequests r s) = viewMode s"
  "selectedBooking (fetchBookingRequests r s) = selectedBooking s"
  "isModalVisible (fetchBookingRequests r s) = isModalVisible s"
  "currentIndex (fetchBookingRequests r s) = currentIndex s"
  "timeRemaining (fetchBookingRequests r s) = timeRemaining s"
  "interval (fetchBookingRequests r s) = interval s"
  "calls (fetchBookingRequests r s) = calls s @ [getBookingRequests_request]"
  "toasts (fetchBookingRequests r s) = toasts s"
  "navigations (fetchBookingRequests r s) = navigations s"
  by (cases "getBookingRequests r"; simp add: fetchBookingRequests_def Let_def)+

lemma fetchBookingRequests_bookingRequests:
  "bookingRequests (fetchBookingRequests r s) =
     (case getBookingRequests r of Inr bs \<Rightarrow> bs | Inl e \<Rightarrow> bookingRequests s)"
  by (cases "getBookingRequests r"; simp add: fetchBookingRequests_def Let_def)

lemma fetchBookingRequests_console:
  "console (fetchBookingRequests r s) =
     (case getBookingRequests r of
        Inr bs \<Rightarrow> console s
      | Inl e \<Rightarrow> console s @ [''Error fetching bookings: '' @ e])"
  by (cases "getBookingRequests r"; simp add: fetchBookingRequests_def Let_def)

text \<open>
  Claim C6. A successful fetch replaces the Offer Set with the offers of the response
  (with the empty list when the response has no \<^verbatim>\<open>bookings\<close>): nothing is appended
  or merged, and no offer that was held before and is absent from the response remains.
  The same holds for the fetch that the polling interval starts.
\<close>

theorem C6_fetch_replaces:
  "getBookingRequests (Response (Some bs)) = Inr bs
   \<and> bookingRequests (fetchBookingRequests (Response (Some bs)) s) = bs
   \<and> bookingRequests (fetchBookingRequests (Response None) s) = []
   \<and> set (bookingRequests (fetchBookingRequests (Response (Some bs)) s))
        \<inter> (set (bookingRequests s) - set bs) = {}
   \<and> bookingRequests (intervalFires (Response (Some bs)) (s\<lparr>interval := Some 5000\<rparr>)) = bs"
  by (auto simp add: getBookingRequests_Response fetchBookingRequests_bookingRequests
      intervalFires_def)

theorem C6_fetch_replaces_witness:
  "bookingRequests (fetchBookingRequests (Response (Some [offer2])) online_two) = [offer2]
   \<and> bookingRequests (fetchBookingRequests (Response None) online_two) = []
   \<and> bookingRequests online_two = [offer1, offer2]"
  using C6_fetch_replaces [of "[offer2]" online_two]
  by (simp add: online_two_def)

text \<open>
  Claim C7, amended. When a fetch fails because the server cannot be reached, the Offer
  Set stays as it was, the error is written to the console only and no toast is shown,
  exactly one request has been made (no retry), the polling interval and the online flag
  are as before, and the next fetch that succeeds replaces the Offer Set as usual. The
  other failures of a fetch, an error response and an unexpected error, leave the Offer
  Set and the toasts alone as well.
\<close>

theorem C7_fetch_failure:
  "bookingRequests (fetchBookingRequests NoResponse s) = bookingRequests s
   \<and> toasts (fetchBookingRequests NoResponse s) = toasts s
   \<and> console (fetchBookingRequests NoResponse s) =
       console s @ [''Error fetching bookings: '' @
         ''Unable to reach server. Please check your internet connection.'']
   \<and> calls (fetchBookingRequests NoResponse s) = calls s @ [getBookingRequests_request]
   \<and> interval (fetchBookingRequests NoResponse s) = interval s
   \<and> isOnline (fetchBookingRequests NoResponse s) = isOnline s
   \<and> bookingRequests
        (fetchBookingRequests (Response (Some bs)) (fetchBookingRequests NoResponse s)) = bs
   \<and> bookingRequests (fetchBookingRequests (ErrorResponse detail message) s) =
       bookingRequests s
   \<and> toasts (fetchBookingRequests (ErrorResponse detail message) s) = toasts s
   \<and> bookingRequests (fetchBookingRequests Unexpected s) = bookingRequests s
   \<and> toasts (fetchBookingRequests Unexpected s) = toasts s"
  by (simp add: fetchBookingRequests_frame fetchBookingRequests_bookingRequests
      fetchBookingRequests_console getBookingRequests_NoResponse
      getBookingRequests_Response getBookingRequests_failure del: append.simps)

text \<open>
  The claim as it stands asks for a warning that the driver can see. The polling fetch
  of the sample dashboard that meets an unreachable server shows no toast.
\<close>

theorem C7_counterexample:
  "bookingRequests (intervalFires NoResponse online_two) = [offer1, offer2]
   \<and> toasts (intervalFires NoResponse online_two) = toasts online_two"
  by (simp add: intervalFires_def fetchBookingRequests_frame
      fetchBookingRequests_bookingRequests getBookingRequests_NoResponse online_two_def)

section \<open>Going online and offline\<close>

lemma handleToggleOnline_offline:
  assumes "isOnline s"
  shows "isOnline (handleToggleOnline (Response u) r2 s) = False"
    and "bookingRequests (handleToggleOnline (Response u) r2 s) = []"
    and "calls (handleToggleOnline (Response u) r2 s) =
          calls s @ [updateOnlineStatus_request False]"
    and "interval (handleToggleOnline (Response u) r2 s) = interval s"
  using assms
  by (simp_all add: handleToggleOnline_def updateOnlineStatus_Response Let_def)

lemma handleToggleOnline_online:
  assumes "\<not> isOnline s"
  shows "isOnline (handleToggleOnline (Response u) r2 s) = True"
    and "bookingRequests (handleToggleOnline (Response u) r2 s) =
          (case getBookingRequests r2 of Inr bs \<Rightarrow> bs | Inl e \<Rightarrow> bookingRequests s)"
    and "calls (handleToggleOnline (Response u) r2 s) =
          calls s @ [updateOnlineStatus_request True, getBookingRequests_request]"
    and "interval (handleToggleOnline (Response u) r2 s) = interval s"
  using assms
  by (simp_all add: handleToggleOnline_def updateOnlineStatus_Response Let_def
      fetchBookingRequests_frame fetchBookingRequests_bookingRequests split: sum.split)

lemma handleToggleOnline_failure:
  "isOnline (handleToggleOnline NoResponse r2 s) = isOnline s"
  "bookingRequests (handleToggleOnline NoResponse r2 s) = bookingRequests s"
  "interval (handleToggleOnline NoResponse r2 s) = interval s"
  by (simp_all add: handleToggleOnline_def updateOnlineStatus_NoResponse Let_def)

lemma pollingEffect_frame:
  "isOnline (pollingEffect s) = isOnline s"
  "bookingRequests (pollingEffect s) = bookingRequests s"
  "calls (pollingEffect s) = calls s"
  "interval (pollingEffect s) = (if isOnline s then Some 5000 else None)"
  by (simp_all add: pollingEffect_def)

text \<open>
  Claim C5. A toggle whose status update the backend accepts: from online, the driver is
  offline, the Offer Set is empty, the polling interval is cleared (a firing of it would
  do nothing), the only request made is the status update, and the screen shows the
  offline message; from offline, the driver is online, the interval of 5000 milliseconds
  is set (its firing fetches), and right after the status update, within the same
  handler, one fetch is made, whose offers are the Offer Set when it succeeds. A toggle
  whose status update fails changes neither the online flag, nor the Offer Set, nor the
  interval.
\<close>

theorem C5_online_transition:
  "(let s' = toggleOnline (Response u) r2 s in
     if isOnline s
     then \<not> isOnline s' \<and> bookingRequests s' = [] \<and> interval s' = None
        \<and> calls s' = calls s @ [updateOnlineStatus_request False]
        \<and> intervalFires r s' = s'
        \<and> DashboardScreen_bookings s' = OfflineMessage
     else isOnline s' \<and> interval s' = Some 5000
        \<and> calls s' = calls s @ [updateOnlineStatus_request True, getBookingRequests_request]
        \<and> bookingRequests s' =
            (case getBookingRequests r2 of Inr bs \<Rightarrow> bs | Inl e \<Rightarrow> bookingRequests s)
        \<and> intervalFires r s' = fetchBookingRequests r s')
   \<and> isOnline (toggleOnline (NoResponse :: 'a outcome) r2 s) = isOnline s
   \<and> bookingRequests (toggleOnline (NoResponse :: 'a outcome) r2 s) = bookingRequests s
   \<and> interval (toggleOnline (NoResponse :: 'a outcome) r2 s) = interval s"
proof -
  have failure: "toggleOnline (NoResponse :: 'a outcome) r2 s =
      handleToggleOnline (NoResponse :: 'a outcome) r2 s"
    by (simp add: toggleOnline_def Let_def handleToggleOnline_failure)
  show ?thesis
  proof (cases "isOnline s")
    case True
    then show ?thesis
      unfolding failure
      by (simp add: toggleOnline_def Let_def handleToggleOnline_offline
          handleToggleOnline_failure pollingEffect_frame intervalFires_def
          DashboardScreen_bookings_def)
  next
    case False
    then show ?thesis
      unfolding failure
      by (simp add: toggleOnline_def Let_def handleToggleOnline_online
          handleToggleOnline_failure pollingEffect_frame intervalFires_def)
  qed
qed

theorem C5_online_transition_witness:
  "isOnline online_two
   \<and> \<not> isOnline (toggleOnline (Response ()) NoResponse online_two)
   \<and> bookingRequests (toggleOnline (Response ()) NoResponse online_two) = []
   \<and> interval (toggleOnline (Response ()) NoResponse online_two) = None
   \<and> \<not> isOnline DashboardScreen_initial
   \<and> isOnline (toggleOnline (Response ()) (Response (Some [offer1, offer2]))
        DashboardScreen_initial)
   \<and> interval (toggleOnline (Response ()) (Response (Some [offer1, offer2]))
        DashboardScreen_initial) = Some 5000
   \<and> calls (toggleOnline (Response ()) (Response (Some [offer1, offer2]))
        DashboardScreen_initial) =
       [updateOnlineStatus_request True, getBookingRequests_request]
   \<and> bookingRequests (toggleOnline (Response ()) (Response (Some [offer1, offer2]))
        DashboardScreen_initial) = [offer1, offer2]"
proof -
  have online: "isOnline online_two"
    by (simp add: online_two_def)
  have offline: "\<not> isOnline DashboardScreen_initial" "calls DashboardScreen_initial = []"
    by (simp_all add: DashboardScreen_initial_def)
  have going_offline:
    "\<not> isOnline (toggleOnline (Response ()) NoResponse online_two)
     \<and> bookingRequests (toggleOnline (Response ()) NoResponse online_two) = []
     \<and> interval (toggleOnline (Response ()) NoResponse online_two) = None"
    using C5_online_transition [of "()" NoResponse online_two NoResponse] online
    apply (simp only: Let_def if_True)
    apply (elim conjE)
    apply (intro conjI)
    apply assumption+
    done
  have going_online:
    "isOnline (toggleOnline (Response ()) (Response (Some [offer1, offer2]))
        DashboardScreen_initial)
     \<and> interval (toggleOnline (Response ()) (Response (Some [offer1, offer2]))
        DashboardScreen_initial) = Some 5000
     \<and> calls (toggleOnline (Response ()) (Response (Some [offer1, offer2]))
        DashboardScreen_initial) =
       [updateOnlineStatus_request True, getBookingRequests_request]
     \<and> bookingRequests (toggleOnline (Response ()) (Response (Some [offer1, offer2]))
        DashboardScreen_initial) = [offer1, offer2]"
    using C5_online_transition [of "()" "Response (Some [offer1, offer2])"
        DashboardScreen_initial NoResponse] offline
    apply (simp only: Let_def if_False)
    apply (elim conjE)
    apply (simp add: getBookingRequests_Response)
    done
  show ?thesis
    using online offline(1) going_offline going_online by simp
qed

section \<open>Double-precision rounding\<close>

lemma bit_length_upper: "n < 2 ^ bit_length n"
proof (induction n rule: bit_length.induct)
  case (1 n)
  show ?case
  proof (cases "n = 0")
    case True
    then show ?thesis by (simp add: bit_length.simps)
  next
    case False
    then have "n div 2 < 2 ^ bit_length (n div 2)"
      using "1" by simp
    then have "n < 2 * 2 ^ bit_length (n div 2)"
      by linarith
    then show ?thesis
      using False by (simp add: bit_length.simps [of n])
  qed
qed

lemma bit_length_lower: "0 < n \<Longrightarrow> 2 ^ (bit_length n - 1) \<le> n"
proof (induction n rule: bit_length.induct)
  case (1 n)
  then have n: "n \<noteq> 0" by simp
  show ?case
  proof (cases "n div 2 = 0")
    case True
    then show ?thesis
      using n by (simp add: bit_length.simps [of n] bit_length.simps [of 0])
  next
    case False
    then have ih: "2 ^ (bit_length (n div 2) - 1) \<le> n div 2"
      using "1" n by simp
    have pos: "0 < bit_length (n div 2)"
      using False by (simp add: bit_length.simps [of "n div 2"])
    then have "(2::nat) ^ bit_length (n div 2) = 2 * 2 ^ (bit_length (n div 2) - 1)"
      by (metis power_eq_if less_numeral_extra(3))
    then have "(2::nat) ^ bit_length (n div 2) \<le> n"
      using ih by linarith
    then show ?thesis
      using n by (simp add: bit_length.simps [of n])
  qed
qed

lemma binade_lower:
  assumes "x \<noteq> 0"
  shows "2 powi binade x \<le> \<bar>x\<bar>"
proof (cases "1 \<le> \<bar>x\<bar>")
  case True
  define n where "n = nat \<lfloor>\<bar>x\<bar>\<rfloor>"
  have n: "0 < n" "rat_of_nat n \<le> \<bar>x\<bar>"
    using True by (simp_all add: n_def le_floor_iff)
  have b: "binade x = int (bit_length n) - 1"
    using True by (simp add: binade_def n_def)
  have "0 < bit_length n"
    using n(1) by (simp add: bit_length.simps [of n])
  then have "binade x = int (bit_length n - 1)"
    using b by simp
  then have "(2::rat) powi binade x = 2 ^ (bit_length n - 1)"
    by simp
  also have "\<dots> = rat_of_nat (2 ^ (bit_length n - 1))"
    by simp
  also have "\<dots> \<le> rat_of_nat n"
    using bit_length_lower [OF n(1)] by (simp only: of_nat_le_iff)
  finally show ?thesis
    using n(2) by linarith
next
  case False
  define y where "y = 1 / \<bar>x\<bar>"
  define m where "m = nat (\<lceil>y\<rceil> - 1)"
  have y: "1 < y"
    using False assms by (simp add: y_def)
  have "y \<le> of_int \<lceil>y\<rceil>" by simp
  moreover have "1 \<le> \<lceil>y\<rceil> - 1"
    using y by (simp add: less_ceiling_iff le_diff_eq)
  ultimately have "y \<le> rat_of_nat m + 1"
    by (simp add: m_def)
  also have "\<dots> = rat_of_nat (m + 1)" by simp
  also have "\<dots> \<le> rat_of_nat (2 ^ bit_length m)"
    using bit_length_upper [of m] by (simp only: of_nat_le_iff)
  finally have "y \<le> 2 ^ bit_length m" by simp
  then have "1 / 2 ^ bit_length m \<le> 1 / y"
    using y by (intro divide_left_mono) simp_all
  moreover have "1 / y = \<bar>x\<bar>"
    by (simp add: y_def)
  moreover have "binade x = - int (bit_length m)"
    using False by (simp add: binade_def m_def y_def)
  ultimately show ?thesis
    by (simp add: power_int_minus_divide)
qed

lemma binade_upper:
  assumes "x \<noteq> 0"
  shows "\<bar>x\<bar> < 2 powi (binade x + 1)"
proof (cases "1 \<le> \<bar>x\<bar>")
  case True
  define n where "n = nat \<lfloor>\<bar>x\<bar>\<rfloor>"
  have "0 \<le> \<lfloor>\<bar>x\<bar>\<rfloor>"
    using True by simp
  then have "rat_of_nat n = of_int \<lfloor>\<bar>x\<bar>\<rfloor>"
    by (simp add: n_def)
  then have "\<bar>x\<bar> < rat_of_nat n + 1"
    by linarith
  also have "\<dots> = rat_of_nat (n + 1)" by simp
  also have "\<dots> \<le> rat_of_nat (2 ^ bit_length n)"
    using bit_length_upper [of n] by (simp only: of_nat_le_iff)
  also have "\<dots> = 2 powi (binade x + 1)"
    using True by (simp add: binade_def n_def)
  finally show ?thesis .
next
  case False
  define y where "y = 1 / \<bar>x\<bar>"
  define m where "m = nat (\<lceil>y\<rceil> - 1)"
  have y: "1 < y"
    using False assms by (simp add: y_def)
  have m1: "1 \<le> \<lceil>y\<rceil> - 1"
    using y by (simp add: less_ceiling_iff le_diff_eq)
  then have m: "0 < m" "rat_of_nat m = of_int \<lceil>y\<rceil> - 1"
    by (simp_all add: m_def)
  have "of_int \<lceil>y\<rceil> - 1 < y"
    by linarith
  then have my: "rat_of_nat m < y"
    using m(2) by simp
  have "rat_of_nat (2 ^ (bit_length m - 1)) \<le> rat_of_nat m"
    using bit_length_lower [OF m(1)] by (simp only: of_nat_le_iff)
  then have "rat_of_nat (2 ^ (bit_length m - 1)) < y"
    using my by linarith
  then have low: "2 ^ (bit_length m - 1) < y"
    by simp
  have "1 / y < 1 / 2 ^ (bit_length m - 1)"
    using low y by (intro divide_strict_left_mono mult_pos_pos) simp_all
  moreover have "1 / y = \<bar>x\<bar>"
    by (simp add: y_def)
  moreover have "0 < bit_length m"
    using m(1) by (simp add: bit_length.simps [of m])
  then have "binade x + 1 = - int (bit_length m - 1)"
    using False by (simp add: binade_def m_def y_def)
  ultimately show ?thesis
    by (simp add: power_int_minus_divide)
qed

lemma round_half_even_error: "\<bar>of_int (round_half_even y) - y\<bar> \<le> 1 / 2"
proof -
  have "0 \<le> y - of_int \<lfloor>y\<rfloor>" "y - of_int \<lfloor>y\<rfloor> < 1"
    by linarith+
  then show ?thesis
    by (auto simp add: round_half_even_def Let_def abs_le_iff)
qed

lemma round_half_even_nonneg: "0 \<le> y \<Longrightarrow> 0 \<le> round_half_even y"
  by (auto simp add: round_half_even_def Let_def)

lemma round_double_nonneg: "0 \<le> x \<Longrightarrow> 0 \<le> round_double x"
  by (simp add: round_double_def Let_def round_half_even_nonneg)

lemma round_double_error:
  "\<bar>round_double x - x\<bar> \<le> 2 powi (max (binade x) (- 1022) - 53)"
proof (cases "x = 0")
  case True
  then show ?thesis by (simp add: round_double_def)
next
  case False
  define q :: rat where "q = 2 powi (max (binade x) (- 1022) - 52)"
  have q: "0 < q" by (simp add: q_def)
  have "round_double x - x = q * (of_int (round_half_even (x / q)) - x / q)"
    using False q by (simp add: round_double_def q_def [symmetric] Let_def field_simps)
  then have "\<bar>round_double x - x\<bar> = q * \<bar>of_int (round_half_even (x / q)) - x / q\<bar>"
    using q by (simp add: abs_mult)
  also have "\<dots> \<le> q * (1 / 2)"
    using q round_half_even_error [of "x / q"] by (intro mult_left_mono) simp_all
  also have "\<dots> = 2 powi (max (binade x) (- 1022) - 53)"
  proof -
    have "(2::rat) powi ((max (binade x) (- 1022) - 53) + 1) =
        2 powi (max (binade x) (- 1022) - 53) * 2"
      by (rule power_int_add_1) simp
    moreover have "max (binade x) (- 1022) - 53 + 1 = max (binade x) (- 1022) - 52"
      by simp
    ultimately have "q = 2 powi (max (binade x) (- 1022) - 53) * 2"
      unfolding q_def by (simp only:)
    then show ?thesis by simp
  qed
  finally show ?thesis .
qed

lemma round_double_relative_error:
  assumes "2 powi (- 1022) \<le> \<bar>x\<bar>"
  shows "\<bar>round_double x - x\<bar> \<le> \<bar>x\<bar> / 2 ^ 53"
proof -
  have nz: "x \<noteq> 0"
    using assms by auto
  have lt: "(2::rat) powi (- 1022) < 2 powi (binade x + 1)"
    using assms binade_upper [OF nz] by linarith
  have "- 1022 < binade x + 1"
  proof (rule ccontr)
    assume "\<not> - 1022 < binade x + 1"
    then have "binade x + 1 \<le> - 1022"
      by simp
    then have "(2::rat) powi (binade x + 1) \<le> 2 powi (- 1022)"
      by (intro power_int_increasing) simp_all
    with lt show False
      by linarith
  qed
  then have "max (binade x) (- 1022) = binade x"
    by simp
  then have "\<bar>round_double x - x\<bar> \<le> 2 powi (binade x - 53)"
    using round_double_error [of x] by simp
  also have "\<dots> = 2 powi binade x / 2 ^ 53"
    by (simp add: power_int_diff)
  also have "\<dots> \<le> \<bar>x\<bar> / 2 ^ 53"
    using binade_lower [OF nz] by (intro divide_right_mono) simp_all
  finally show ?thesis .
qed

lemma round_double_0_35: "round_double (35 / 100) = 6305039478318694 / 2 ^ 54"
  by code_simp

lemma SWIPE_THRESHOLD_360: "SWIPE_THRESHOLD 360 = 126 - 1 / 2 ^ 46"
  by code_simp

lemma SWIPE_THRESHOLD_400: "SWIPE_THRESHOLD 400 = 140"
  by code_simp

lemma SWIPE_THRESHOLD_nonneg: "0 \<le> SCREEN_WIDTH \<Longrightarrow> 0 \<le> SWIPE_THRESHOLD SCREEN_WIDTH"
  unfolding SWIPE_THRESHOLD_def
  by (intro round_double_nonneg mult_nonneg_nonneg) simp_all

lemma SWIPE_THRESHOLD_error:
  assumes "1 \<le> SCREEN_WIDTH"
  shows "\<bar>SWIPE_THRESHOLD SCREEN_WIDTH - SCREEN_WIDTH * (35 / 100)\<bar>
           \<le> SCREEN_WIDTH * (35 / 100) / 2 ^ 52"
proof -
  define d :: rat where "d = 6305039478318694 / 2 ^ 54"
  define x where "x = SCREEN_WIDTH * d"
  have d: "round_double (35 / 100) = d"
    unfolding d_def by (rule round_double_0_35)
  have dpos: "1 / 4 \<le> d" "d \<le> 35 / 100" "35 / 100 - d \<le> (20 / 100) / 2 ^ 53"
    by (simp_all add: d_def)
  have x: "1 / 4 \<le> x" "x \<le> SCREEN_WIDTH * (35 / 100)"
    "SCREEN_WIDTH * (35 / 100) - x \<le> SCREEN_WIDTH * ((20 / 100) / 2 ^ 53)"
  proof -
    have "1 / 4 \<le> 1 * d" using dpos(1) by simp
    also have "\<dots> \<le> SCREEN_WIDTH * d"
      using assms dpos(1) by (intro mult_right_mono) simp_all
    finally show "1 / 4 \<le> x" by (simp add: x_def)
    show "x \<le> SCREEN_WIDTH * (35 / 100)"
      unfolding x_def using assms dpos(2) by (intro mult_left_mono) simp_all
    have "SCREEN_WIDTH * (35 / 100 - d) \<le> SCREEN_WIDTH * ((20 / 100) / 2 ^ 53)"
      using assms dpos(3) by (intro mult_left_mono) simp_all
    then show "SCREEN_WIDTH * (35 / 100) - x \<le> SCREEN_WIDTH * ((20 / 100) / 2 ^ 53)"
      by (simp add: x_def algebra_simps)
  qed
  have "(2::rat) powi (- 1022) \<le> 2 powi (- 2)"
    by (intro power_int_increasing) simp_all
  also have "\<dots> = 1 / 4"
    by simp
  finally have "2 powi (- 1022) \<le> \<bar>x\<bar>"
    using x(1) by linarith
  then have "\<bar>round_double x - x\<bar> \<le> \<bar>x\<bar> / 2 ^ 53"
    by (rule round_double_relative_error)
  moreover have "\<bar>x\<bar> / 2 ^ 53 \<le> SCREEN_WIDTH * (35 / 100) / 2 ^ 53"
    using x(1) x(2) by (intro divide_right_mono) simp_all
  ultimately have e: "\<bar>round_double x - x\<bar> \<le> SCREEN_WIDTH * (35 / 100) / 2 ^ 53"
    by linarith
  have t: "SWIPE_THRESHOLD SCREEN_WIDTH = round_double x"
    unfolding SWIPE_THRESHOLD_def d x_def ..
  have "SCREEN_WIDTH * (35 / 100) / 2 ^ 53 + SCREEN_WIDTH * ((20 / 100) / 2 ^ 53)
      \<le> SCREEN_WIDTH * (35 / 100) / 2 ^ 52"
    using assms by simp
  then show ?thesis
    unfolding t using e x(2) x(3) by linarith
qed

section \<open>Swipe view: gestures, dismissing, accepting\<close>

lemma map_card_booking_enumerate:
  "map (card_booking \<circ> (\<lambda>(index, b). BookingCard s b (P index))) (enumerate n xs) = xs"
  by (induction xs arbitrary: n) (simp_all add: BookingCard_def)

lemma map_card_booking_BookingSliderView:
  "map card_booking (BookingSliderView s) =
     rev (take 2 (drop (currentIndex s) (bookingRequests s)))"
  by (simp add: BookingSliderView_def map_card_booking_enumerate)

lemma map_row_booking_BookingListView:
  "map row_booking (BookingListView s) = bookingRequests s"
  by (simp add: BookingListView_def BookingListItem_def comp_def)

lemma BookingListView_cong:
  "bookingRequests s' = bookingRequests s \<Longrightarrow> timeRemaining s' = timeRemaining s \<Longrightarrow>
   BookingListView s' = BookingListView s"
  by (simp add: BookingListView_def BookingListItem_def)

lemma handleSwipeLeft_frame:
  "bookingRequests (handleSwipeLeft s) = bookingRequests s"
  "calls (handleSwipeLeft s) = calls s"
  "currentIndex (handleSwipeLeft s) = currentIndex s + 1"
  "timeRemaining (handleSwipeLeft s) = timeRemaining s"
  "isOnline (handleSwipeLeft s) = isOnline s"
  by (simp_all add: handleSwipeLeft_def)

lemma handleAcceptBooking_frame:
  "bookingRequests (handleAcceptBooking i s) = bookingRequests s"
  "calls (handleAcceptBooking i s) = calls s"
  "currentIndex (handleAcceptBooking i s) = currentIndex s"
  "navigations (handleAcceptBooking i s) = navigations s"
  by (simp_all add: handleAcceptBooking_def)

lemma handleSwipeRight_handleAcceptBooking:
  "bookingRequests (handleSwipeRight handleAcceptBooking bookings index s) = bookingRequests s"
  "calls (handleSwipeRight handleAcceptBooking bookings index s) = calls s"
  "navigations (handleSwipeRight handleAcceptBooking bookings index s) = navigations s"
  "currentIndex (handleSwipeRight handleAcceptBooking bookings index s) =
     (if index < length bookings then currentIndex s + 1 else currentIndex s)"
  by (simp_all add: handleSwipeRight_def Let_def handleAcceptBooking_frame)

lemma BookingDetailModal_handleAccept_handleAcceptBooking:
  "bookingRequests (BookingDetailModal_handleAccept handleAcceptBooking s) = bookingRequests s"
  "calls (BookingDetailModal_handleAccept handleAcceptBooking s) = calls s"
  "navigations (BookingDetailModal_handleAccept handleAcceptBooking s) = navigations s"
  by (simp_all add: BookingDetailModal_handleAccept_def handleAcceptBooking_frame
      split: option.split)


lemma onPanResponderRelease_left:
  assumes "0 \<le> SCREEN_WIDTH" and "dx g < - SWIPE_THRESHOLD SCREEN_WIDTH"
  shows "start_callback (onPanResponderRelease SCREEN_WIDTH g) = Some OnSwipeLeft"
proof -
  have "0 \<le> SWIPE_THRESHOLD SCREEN_WIDTH"
    using assms(1) by (rule SWIPE_THRESHOLD_nonneg)
  then have "\<not> dx g > SWIPE_THRESHOLD SCREEN_WIDTH"
    using assms(2) by linarith
  then have "onPanResponderRelease SCREEN_WIDTH g =
      \<lparr>toValue = (round_double (- SCREEN_WIDTH - 100), dy g),
       start_callback = Some OnSwipeLeft\<rparr>"
    unfolding onPanResponderRelease_def using assms(2) by (simp only: if_True if_False)
  then show ?thesis by simp
qed

lemma onPanResponderRelease_callback:
  assumes "0 \<le> SWIPE_THRESHOLD SCREEN_WIDTH"
  shows "start_callback (onPanResponderRelease SCREEN_WIDTH g) =
     (if SWIPE_THRESHOLD SCREEN_WIDTH < dx g then Some OnSwipeRight
      else if dx g < - SWIPE_THRESHOLD SCREEN_WIDTH then Some OnSwipeLeft
      else None)"
  by (simp add: onPanResponderRelease_def)

lemma BookingCard_gesture_taken:
  "BookingCard_gesture onAccept bookings index True True SCREEN_WIDTH g s =
     BookingCard_release onAccept bookings index SCREEN_WIDTH g s"
  by (simp add: BookingCard_gesture_def)

lemma BookingCard_gesture_refused:
  "BookingCard_gesture onAccept bookings index False isTop SCREEN_WIDTH g s = s"
  "BookingCard_gesture onAccept bookings index firstTop False SCREEN_WIDTH g s = s"
  by (simp_all add: BookingCard_gesture_def)

text \<open>
  Claim C9, amended. The threshold of the release is \<^verbatim>\<open>SCREEN_WIDTH * 0.35\<close> as the
  doubles give it, which is 35% of the width up to rounding: for a width of at least 1
  the two differ by at most the fraction \<open>2^(-52)\<close> of 35% of the width. On a screen of
  non-negative width, the release of a gesture calls the accept callback exactly when
  the displacement \<open>dx\<close> is above that threshold, the dismiss callback exactly when it
  is below minus that threshold, and no callback exactly when \<open>\<bar>dx\<bar>\<close> is within that
  threshold, in which case the card springs back to the centre. What the release starts
  depends on the released gesture only, whatever moves came before it and wherever the
  card was. The callbacks are the two handlers of the slider view.
\<close>

theorem C9_swipe_threshold:
  assumes "0 \<le> SCREEN_WIDTH"
  shows "SWIPE_THRESHOLD SCREEN_WIDTH = round_double (SCREEN_WIDTH * round_double (35 / 100))
       \<and> (1 \<le> SCREEN_WIDTH \<longrightarrow>
            \<bar>SWIPE_THRESHOLD SCREEN_WIDTH - SCREEN_WIDTH * (35 / 100)\<bar>
              \<le> SCREEN_WIDTH * (35 / 100) / 2 ^ 52)
       \<and> (start_callback (onPanResponderRelease SCREEN_WIDTH g) = Some OnSwipeRight
            \<longleftrightarrow> SWIPE_THRESHOLD SCREEN_WIDTH < dx g)
       \<and> (start_callback (onPanResponderRelease SCREEN_WIDTH g) = Some OnSwipeLeft
            \<longleftrightarrow> dx g < - SWIPE_THRESHOLD SCREEN_WIDTH)
       \<and> (start_callback (onPanResponderRelease SCREEN_WIDTH g) = None
            \<longleftrightarrow> \<bar>dx g\<bar> \<le> SWIPE_THRESHOLD SCREEN_WIDTH)
       \<and> (\<bar>dx g\<bar> \<le> SWIPE_THRESHOLD SCREEN_WIDTH
            \<longrightarrow> toValue (onPanResponderRelease SCREEN_WIDTH g) = (0, 0))
       \<and> snd (panResponder_gesture SCREEN_WIDTH moves g position) =
            snd (panResponder_gesture SCREEN_WIDTH moves' g position')
       \<and> BookingCard_release onAccept bookings index SCREEN_WIDTH g s =
           (if SWIPE_THRESHOLD SCREEN_WIDTH < dx g
            then handleSwipeRight onAccept bookings index s
            else if dx g < - SWIPE_THRESHOLD SCREEN_WIDTH then handleSwipeLeft s
            else s)"
proof -
  have nonneg: "0 \<le> SWIPE_THRESHOLD SCREEN_WIDTH"
    using assms by (rule SWIPE_THRESHOLD_nonneg)
  note callback = onPanResponderRelease_callback [OF nonneg, of g]
  have decisions:
    "(start_callback (onPanResponderRelease SCREEN_WIDTH g) = Some OnSwipeRight
        \<longleftrightarrow> SWIPE_THRESHOLD SCREEN_WIDTH < dx g)
     \<and> (start_callback (onPanResponderRelease SCREEN_WIDTH g) = Some OnSwipeLeft
        \<longleftrightarrow> dx g < - SWIPE_THRESHOLD SCREEN_WIDTH)
     \<and> (start_callback (onPanResponderRelease SCREEN_WIDTH g) = None
        \<longleftrightarrow> \<bar>dx g\<bar> \<le> SWIPE_THRESHOLD SCREEN_WIDTH)"
    unfolding callback using nonneg by auto
  have centre: "\<bar>dx g\<bar> \<le> SWIPE_THRESHOLD SCREEN_WIDTH
      \<longrightarrow> toValue (onPanResponderRelease SCREEN_WIDTH g) = (0, 0)"
    by (auto simp add: onPanResponderRelease_def)
  have path: "snd (panResponder_gesture SCREEN_WIDTH moves g position) =
      snd (panResponder_gesture SCREEN_WIDTH moves' g position')"
    by (simp add: panResponder_gesture_def)
  have card: "BookingCard_release onAccept bookings index SCREEN_WIDTH g s =
      (if SWIPE_THRESHOLD SCREEN_WIDTH < dx g
       then handleSwipeRight onAccept bookings index s
       else if dx g < - SWIPE_THRESHOLD SCREEN_WIDTH then handleSwipeLeft s
       else s)"
    unfolding BookingCard_release_def callback by simp
  show ?thesis
    using decisions centre path card SWIPE_THRESHOLD_error [of SCREEN_WIDTH]
    by (simp add: SWIPE_THRESHOLD_def)
qed

theorem C9_swipe_threshold_witness:
  "(0::rat) \<le> 360 \<and> (1::rat) \<le> 360
   \<and> SWIPE_THRESHOLD 360 = 126 - 1 / 2 ^ 46
   \<and> \<bar>SWIPE_THRESHOLD 360 - 360 * (35 / 100)\<bar> \<le> 360 * (35 / 100) / 2 ^ 52
   \<and> start_callback (onPanResponderRelease 360 \<lparr>dx = 126, dy = 7\<rparr>) = Some OnSwipeRight
   \<and> start_callback (onPanResponderRelease 360 \<lparr>dx = - 126, dy = 7\<rparr>) = Some OnSwipeLeft
   \<and> \<bar>dx \<lparr>dx = 125, dy = 7\<rparr>\<bar> \<le> SWIPE_THRESHOLD 360
   \<and> start_callback (onPanResponderRelease 360 \<lparr>dx = 125, dy = 7\<rparr>) = None
   \<and> toValue (onPanResponderRelease 360 \<lparr>dx = 125, dy = 7\<rparr>) = (0, 0)
   \<and> snd (panResponder_gesture 360
        [\<lparr>dx = 300, dy = 0\<rparr>, \<lparr>dx = - 200, dy = 3\<rparr>] \<lparr>dx = 125, dy = 7\<rparr> (0, 0)) =
       \<lparr>toValue = (0, 0), start_callback = None\<rparr>"
proof -
  note t = SWIPE_THRESHOLD_360
  have "start_callback (onPanResponderRelease 360 \<lparr>dx = 126, dy = 7\<rparr>) = Some OnSwipeRight"
    using C9_swipe_threshold [of 360 "\<lparr>dx = 126, dy = 7\<rparr>"] by (simp add: t)
  moreover
  have "start_callback (onPanResponderRelease 360 \<lparr>dx = - 126, dy = 7\<rparr>) = Some OnSwipeLeft"
    using C9_swipe_threshold [of 360 "\<lparr>dx = - 126, dy = 7\<rparr>"] by (simp add: t)
  moreover
  have "start_callback (onPanResponderRelease 360 \<lparr>dx = 125, dy = 7\<rparr>) = None
      \<and> toValue (onPanResponderRelease 360 \<lparr>dx = 125, dy = 7\<rparr>) = (0, 0)"
    using C9_swipe_threshold [of 360 "\<lparr>dx = 125, dy = 7\<rparr>"] by (simp add: t)
  moreover
  have "snd (panResponder_gesture 360
        [\<lparr>dx = 300, dy = 0\<rparr>, \<lparr>dx = - 200, dy = 3\<rparr>] \<lparr>dx = 125, dy = 7\<rparr> (0, 0)) =
       \<lparr>toValue = (0, 0), start_callback = None\<rparr>"
    by (simp add: panResponder_gesture_def onPanResponderRelease_def t)
  ultimately show ?thesis
    by (simp add: t)
qed

text \<open>
  The claim as it stands puts the threshold at 35% of the width. On a screen 360 wide,
  35% is 126, while the product of the doubles 360 and 0.35 is \<open>126 - 2^(-46)\<close>: a
  release at a displacement of exactly 126, which does not exceed 35% of the width,
  calls the accept callback and sends the card off the screen.
\<close>

theorem C9_counterexample:
  "\<bar>dx \<lparr>dx = 126, dy = 0\<rparr>\<bar> \<le> 360 * (35 / 100)
   \<and> start_callback (onPanResponderRelease 360 \<lparr>dx = 126, dy = 0\<rparr>) = Some OnSwipeRight
   \<and> toValue (onPanResponderRelease 360 \<lparr>dx = 126, dy = 0\<rparr>) = (460, 0)"
proof -
  have "round_double (360 + 100) = 460"
    by code_simp
  then show ?thesis
    by (simp add: onPanResponderRelease_def SWIPE_THRESHOLD_360)
qed

text \<open>
  Claim C8, amended. A left swipe past the threshold on the top card runs the dismiss
  handler, which makes no backend call and leaves the Offer Set as it is: it only moves
  the cursor of the swipe view forward by one, so that the cards shown are the next two
  offers. The dismissed offer stays in the Offer Set, and the list view shows the same
  rows as before.
\<close>

theorem C8_dismiss_is_local:
  assumes "0 \<le> SCREEN_WIDTH" and "dx g < - SWIPE_THRESHOLD SCREEN_WIDTH"
  shows "BookingCard_release onAccept bookings index SCREEN_WIDTH g s = handleSwipeLeft s
       \<and> calls (handleSwipeLeft s) = calls s
       \<and> bookingRequests (handleSwipeLeft s) = bookingRequests s
       \<and> currentIndex (handleSwipeLeft s) = currentIndex s + 1
       \<and> BookingListView (handleSwipeLeft s) = BookingListView s
       \<and> map card_booking (BookingSliderView (handleSwipeLeft s)) =
           rev (take 2 (drop (currentIndex s + 1) (bookingRequests s)))"
proof -
  have release: "BookingCard_release onAccept bookings index SCREEN_WIDTH g s =
      handleSwipeLeft s"
    by (simp add: BookingCard_release_def onPanResponderRelease_left [OF assms])
  have rows: "BookingListView (handleSwipeLeft s) = BookingListView s"
    by (rule BookingListView_cong) (simp_all add: handleSwipeLeft_frame)
  have cards: "map card_booking (BookingSliderView (handleSwipeLeft s)) =
      rev (take 2 (drop (currentIndex s + 1) (bookingRequests s)))"
    by (simp add: map_card_booking_BookingSliderView handleSwipeLeft_frame)
  show ?thesis
    using release rows cards by (simp add: handleSwipeLeft_frame)
qed

theorem C8_dismiss_is_local_witness:
  "(0::rat) \<le> 400 \<and> dx \<lparr>dx = - 141, dy = 0\<rparr> < - SWIPE_THRESHOLD 400
   \<and> BookingCard_release handleAcceptBooking [offer1, offer2] 0 400
        \<lparr>dx = - 141, dy = 0\<rparr> online_two =
       handleSwipeLeft online_two
   \<and> calls (handleSwipeLeft online_two) = calls online_two
   \<and> bookingRequests (handleSwipeLeft online_two) = [offer1, offer2]
   \<and> currentIndex (handleSwipeLeft online_two) = 1
   \<and> map card_booking (BookingSliderView (handleSwipeLeft online_two)) = [offer2]"
  using C8_dismiss_is_local [of 400 "\<lparr>dx = - 141, dy = 0\<rparr>" handleAcceptBooking
      "[offer1, offer2]" 0 online_two]
  by (simp add: SWIPE_THRESHOLD_400 online_two_def)

text \<open>
  The claim as it stands has the dismissed offer removed from the Offer Set. After a
  left swipe of 141 on a screen 400 wide, the Offer Set of the sample dashboard still
  holds the first offer.
\<close>

theorem C8_counterexample:
  "bookingRequests
     (BookingCard_release handleAcceptBooking [offer1, offer2] 0 400
        \<lparr>dx = - 141, dy = 0\<rparr> online_two) =
   [offer1, offer2]"
  by (simp add: BookingCard_release_def onPanResponderRelease_def SWIPE_THRESHOLD_400
      handleSwipeLeft_frame online_two_def)




text \<open>
  Claim C1 asks that accepting an offer calls the accept endpoint with its identifier,
  removes it from the Offer Set and hands its passenger and locations to the navigation.
  The accept handler of the dashboard only closes the modal. On the sample dashboard,
  accepting the first offer from the detail modal, or by a swipe to the right, leaves
  both offers in the Offer Set, makes no request and no navigation; in the dashboard
  whose handler fetches afterwards, the only request added is that fetch.
\<close>

theorem C1_accept_is_a_stub:
  "bookingRequests (BookingDetailModal_handleAccept handleAcceptBooking online_two) =
     [offer1, offer2]
   \<and> calls (BookingDetailModal_handleAccept handleAcceptBooking online_two) =
       [updateOnlineStatus_request True, getBookingRequests_request]
   \<and> navigations (BookingDetailModal_handleAccept handleAcceptBooking online_two) = []
   \<and> bookingRequests
        (handleSwipeRight handleAcceptBooking (bookingRequests online_two)
          (currentIndex online_two) online_two) = [offer1, offer2]
   \<and> calls
        (handleSwipeRight handleAcceptBooking (bookingRequests online_two)
          (currentIndex online_two) online_two) =
       [updateOnlineStatus_request True, getBookingRequests_request]
   \<and> navigations
        (handleSwipeRight handleAcceptBooking (bookingRequests online_two)
          (currentIndex online_two) online_two) = []
   \<and> calls (BookingDetailModal_handleAccept
         (handleAcceptBooking_refresh (Response (Some [offer1, offer2]))) online_two) =
       [updateOnlineStatus_request True, getBookingRequests_request,
        getBookingRequests_request]
   \<and> bookingRequests (BookingDetailModal_handleAccept
         (handleAcceptBooking_refresh (Response (Some [offer1, offer2]))) online_two) =
       [offer1, offer2]"
  by (simp add: BookingDetailModal_handleAccept_handleAcceptBooking
      handleSwipeRight_handleAcceptBooking BookingDetailModal_handleAccept_def
      handleAcceptBooking_refresh_def handleAcceptBooking_frame fetchBookingRequests_frame
      fetchBookingRequests_bookingRequests getBookingRequests_Response online_two_def)

section \<open>Expiry\<close>

lemma tick_frame:
  "bookingRequests (BookingListItem_tick getTime now b s) = bookingRequests s"
  "calls (BookingListItem_tick getTime now b s) = calls s"
  "currentIndex (BookingListItem_tick getTime now b s) = currentIndex s"
  "timeRemaining (BookingListItem_tick getTime now b s) (booking_id b) =
     BookingListItem_calculateTimeRemaining getTime now b"
  "bookingRequests (BookingCard_tick getTime now b s) = bookingRequests s"
  "calls (BookingCard_tick getTime now b s) = calls s"
  "currentIndex (BookingCard_tick getTime now b s) = currentIndex s"
  "timeRemaining (BookingCard_tick getTime now b s) (booking_id b) =
     BookingCard_calculateTimeRemaining getTime now b"
  by (simp_all add: BookingListItem_tick_def BookingCard_tick_def)

text \<open>
  Claim C2, amended. A countdown tick at or after the expiry of an offer sets the
  remaining time shown for it to 0 and does nothing else: it makes no backend call, the
  Offer Set is unchanged, the list view still has a row for every offer of the Offer Set
  and the swipe view still shows the two offers at its cursor. An expired offer leaves
  the Offer Set when a later fetch succeeds with a response that does not list it.
\<close>

theorem C2_expiry_is_display_only:
  assumes "getTime (expires_at b) \<le> now"
  shows "timeRemaining (BookingListItem_tick getTime now b s) (booking_id b) = 0
       \<and> bookingRequests (BookingListItem_tick getTime now b s) = bookingRequests s
       \<and> calls (BookingListItem_tick getTime now b s) = calls s
       \<and> map row_booking (BookingListView (BookingListItem_tick getTime now b s)) =
           bookingRequests s
       \<and> timeRemaining (BookingCard_tick getTime now b s) (booking_id b) = 0
       \<and> bookingRequests (BookingCard_tick getTime now b s) = bookingRequests s
       \<and> calls (BookingCard_tick getTime now b s) = calls s
       \<and> map card_booking (BookingSliderView (BookingCard_tick getTime now b s)) =
           rev (take 2 (drop (currentIndex s) (bookingRequests s)))
       \<and> bookingRequests
           (fetchBookingRequests (Response (Some bs)) (BookingListItem_tick getTime now b s)) = bs"
  using remaining_expired [OF assms]
  by (simp add: tick_frame calculateTimeRemaining_int map_row_booking_BookingListView
      map_card_booking_BookingSliderView fetchBookingRequests_bookingRequests
      getBookingRequests_Response)

theorem C2_expiry_is_display_only_witness:
  "epoch_ms (expires_at offer1) \<le> 30000
   \<and> timeRemaining (BookingListItem_tick epoch_ms 30000 offer1 online_two) ''O1'' = 0
   \<and> bookingRequests (BookingListItem_tick epoch_ms 30000 offer1 online_two) = [offer1, offer2]
   \<and> map row_booking (BookingListView (BookingListItem_tick epoch_ms 30000 offer1 online_two)) =
        [offer1, offer2]
   \<and> map card_booking (BookingSliderView (BookingCard_tick epoch_ms 30000 offer1 online_two)) =
        [offer2, offer1]
   \<and> bookingRequests
        (fetchBookingRequests (Response (Some [offer2]))
          (BookingListItem_tick epoch_ms 30000 offer1 online_two)) = [offer2]"
  using C2_expiry_is_display_only [of epoch_ms offer1 30000 online_two "[offer2]"]
  by (simp add: sample_defs)

text \<open>
  The claim as it stands removes an offer on the tick after its remaining time reached
  0. The first sample offer reaches 0 at the tick at 30000; after the next tick, at
  31000, it is still in the Offer Set, in the list view and in the swipe view.
\<close>

theorem C2_counterexample:
  "timeRemaining (BookingListItem_tick epoch_ms 30000 offer1 online_two) ''O1'' = 0
   \<and> bookingRequests
        (BookingListItem_tick epoch_ms 31000 offer1
          (BookingListItem_tick epoch_ms 30000 offer1 online_two)) = [offer1, offer2]
   \<and> map row_booking (BookingListView
        (BookingListItem_tick epoch_ms 31000 offer1
          (BookingListItem_tick epoch_ms 30000 offer1 online_two))) = [offer1, offer2]
   \<and> map card_booking (BookingSliderView
        (BookingCard_tick epoch_ms 31000 offer1
          (BookingCard_tick epoch_ms 30000 offer1 online_two))) = [offer2, offer1]"
  by (simp add: BookingListItem_tick_def BookingCard_tick_def calculateTimeRemaining_int
      map_row_booking_BookingListView map_card_booking_BookingSliderView sample_defs)

end
